theory Spec2Isabelle
  imports Main "HOL-Library.Sublist"
begin

section \<open>Product store service: the request handlers of \<open>service/routes.py\<close>\<close>

text \<open>
  The handlers are embedded as functions from the request and the service state to a
  result and the new state. \<open>abort(status, description)\<close> is the left summand of the
  result, carrying the status code and the description; a returned response is the right
  summand. The state holds the stored products and the lines written to the logger.

  Python strings are lists of code points; the model's \<open>string\<close> holds the code points
  below 256, and \<open>py_isspace\<close> and \<open>py_lower_char\<close> are Python's \<open>str.isspace\<close> and
  \<open>str.lower\<close> on that range.
\<close>

subsection \<open>Strings\<close>

definition py_isspace :: "char \<Rightarrow> bool" where
  "py_isspace c =
     (let n = (of_char c :: nat)
      in (9 \<le> n \<and> n \<le> 13) \<or> (28 \<le> n \<and> n \<le> 32) \<or> n = 133 \<or> n = 160)"

definition py_lower_char :: "char \<Rightarrow> char" where
  "py_lower_char c =
     (let n = (of_char c :: nat)
      in if (65 \<le> n \<and> n \<le> 90) \<or> (192 \<le> n \<and> n \<le> 222 \<and> n \<noteq> 215)
         then char_of (n + 32) else c)"

definition py_strip :: "string \<Rightarrow> string" where
  "py_strip s = rev (dropWhile py_isspace (rev (dropWhile py_isspace s)))"

definition py_lower :: "string \<Rightarrow> string" where
  "py_lower s = map py_lower_char s"

text \<open>
  \<open>str(n)\<close> and \<open>f"{n}"\<close> for an integer: its decimal digits, with a sign. \<open>digit_char\<close>
  is applied to numbers below 10 only.
\<close>

definition digit_char :: "nat \<Rightarrow> char" where
  "digit_char d = ''0123456789'' ! d"

fun str_nat :: "nat \<Rightarrow> string" where
  "str_nat n =
     (if n < 10 then [digit_char n]
      else str_nat (n div 10) @ [digit_char (n mod 10)])"

declare str_nat.simps [simp del]

definition str_int :: "int \<Rightarrow> string" where
  "str_int i = (if i < 0 then CHR ''-'' # str_nat (nat (- i)) else str_nat (nat i))"

subsection \<open>Status codes, requests, products and the service state\<close>

text \<open>
  Modelled from the spec: the constants of \<open>service.common.status\<close>, which is not among the
  sources; the spec gives each code's number.
\<close>

definition HTTP_200_OK :: nat where
  "HTTP_200_OK = 200"

definition HTTP_400_BAD_REQUEST :: nat where
  "HTTP_400_BAD_REQUEST = 400"

definition HTTP_404_NOT_FOUND :: nat where
  "HTTP_404_NOT_FOUND = 404"

definition HTTP_415_UNSUPPORTED_MEDIA_TYPE :: nat where
  "HTTP_415_UNSUPPORTED_MEDIA_TYPE = 415"

text \<open>\<open>abort(status, description)\<close>: the status code and the description.\<close>

type_synonym http_error = "nat \<times> string"

text \<open>
  The request, as the handlers read it: \<open>request.headers\<close> and \<open>request.args\<close> looked up
  by key (\<open>args.get(k)\<close> is \<open>None\<close> for a missing key), and the value \<open>request.get_json()\<close>
  returns for the body.
\<close>

record 'j request =
  headers :: "string \<rightharpoonup> string"
  args :: "string \<rightharpoonup> string"
  json :: 'j

text \<open>
  Modelled from the spec: the Product record of \<open>service.models\<close>, which is not among the
  sources. The spec's data model gives the six attributes; the type \<open>'c\<close> is the enumerated
  Category, whose members the spec does not list.
\<close>

text \<open>A decimal number: its coefficient and its exponent of ten.\<close>

datatype decimal = Decimal int int

record 'c product =
  p_id :: int
  p_name :: string
  p_description :: string
  p_price :: decimal
  p_available :: bool
  p_category :: 'c

datatype level = INFO | ERROR

record 'c state =
  products :: "'c product list"
  logged :: "(level \<times> string) list"

definition logger :: "level \<Rightarrow> string \<Rightarrow> 'c state \<Rightarrow> 'c state" where
  "logger lv msg s = s\<lparr>logged := logged s @ [(lv, msg)]\<rparr>"

text \<open>
  What \<open>getattr(Category, name)\<close> returns when it raises nothing: an enumerated member of
  \<open>Category\<close>, or another attribute of the class object. Every Python class has such
  attributes (\<open>__class__\<close>, \<open>__name__\<close>, \<open>__doc__\<close>, \<open>__module__\<close>, \<open>mro\<close>), and an
  enumeration has \<open>__members__\<close> as well.
\<close>

datatype 'c attr = Member 'c | Other

text \<open>
  Modelled from the spec: the queries of the persistence collaborator (\<open>Product.all\<close>,
  \<open>Product.find\<close>, \<open>Product.find_by_name\<close>, \<open>Product.find_by_category\<close>,
  \<open>Product.find_by_availability\<close>), the write \<open>Product.update\<close> and \<open>Product.serialize\<close>, all
  of \<open>service.models\<close>. The queries filter the stored records by the attribute, in the
  store's order. The spec leaves the name match (exact or substring) to the collaborator, so
  it is the parameter \<open>name_matches\<close>. The category query compares the stored category with
  the object the handler passes; the spec gives it for categories only, and in the model an
  object that is no category matches no record. The update writes the record over the stored record
  with its id. The serialized product has the record's six attributes, and the model keeps
  the record.
\<close>

definition Product_all :: "'c product list \<Rightarrow> 'c product list" where
  "Product_all db = db"

definition Product_find :: "'c product list \<Rightarrow> int \<Rightarrow> 'c product option" where
  "Product_find db i = find (\<lambda>p. p_id p = i) db"

definition Product_find_by_name ::
  "(string \<Rightarrow> string \<Rightarrow> bool) \<Rightarrow> 'c product list \<Rightarrow> string \<Rightarrow> 'c product list" where
  "Product_find_by_name name_matches db n = filter (\<lambda>p. name_matches n (p_name p)) db"

definition Product_find_by_category :: "'c product list \<Rightarrow> 'c attr \<Rightarrow> 'c product list" where
  "Product_find_by_category db a = filter (\<lambda>p. Member (p_category p) = a) db"

definition Product_find_by_availability :: "'c product list \<Rightarrow> bool \<Rightarrow> 'c product list" where
  "Product_find_by_availability db b = filter (\<lambda>p. p_available p = b) db"

definition Product_update :: "'c product \<Rightarrow> 'c state \<Rightarrow> 'c state" where
  "Product_update product s =
     s\<lparr>products := map (\<lambda>q. if p_id q = p_id product then product else q) (products s)\<rparr>"

definition serialize :: "'c product \<Rightarrow> 'c product" where
  "serialize product = product"

text \<open>A response: the body given to \<open>jsonify\<close> (one serialized product or a list), and the status.\<close>

datatype 'c body = JsonObject "'c product" | JsonArray "'c product list"

type_synonym 'c response = "'c body \<times> nat"

subsection \<open>The content-type guard\<close>

definition check_content_type ::
  "string \<Rightarrow> 'j request \<Rightarrow> 'c state \<Rightarrow> (http_error + unit) \<times> 'c state" where
  "check_content_type content_type r s =
     (case headers r ''Content-Type'' of
        None \<Rightarrow>
          (Inl (HTTP_415_UNSUPPORTED_MEDIA_TYPE, ''Content-Type must be '' @ content_type),
           logger ERROR ''No Content-Type specified.'' s)
      | Some received \<Rightarrow>
          if received = content_type then (Inr (), s)
          else
            (Inl (HTTP_415_UNSUPPORTED_MEDIA_TYPE, ''Content-Type must be '' @ content_type),
             logger ERROR (''Invalid Content-Type: '' @ received) s))"

subsection \<open>The boolean query-parameter parser\<close>

text \<open>
  \<open>_parse_bool_param\<close>: the argument is \<open>None\<close> or a string, the result is \<open>True\<close>,
  \<open>False\<close> or \<open>None\<close>.
\<close>

definition parse_bool_param :: "string option \<Rightarrow> bool option" where
  "parse_bool_param value =
     (case value of
        None \<Rightarrow> None
      | Some v \<Rightarrow>
          (let val = py_lower (py_strip v)
           in if val \<in> set [''true'', ''1'', ''yes'', ''y'', ''t''] then Some True
              else if val \<in> set [''false'', ''0'', ''no'', ''n'', ''f''] then Some False
              else None))"

subsection \<open>Lookup or 404\<close>

text \<open>\<open>_get_product_or_404\<close>: a stored product is an object, which Python takes as true.\<close>

definition get_product_or_404 :: "int \<Rightarrow> 'c state \<Rightarrow> http_error + 'c product" where
  "get_product_or_404 product_id s =
     (case Product_find (products s) product_id of
        None \<Rightarrow>
          Inl (HTTP_404_NOT_FOUND,
               ''Product with id '' @ [CHR 0x27] @ str_int product_id @ [CHR 0x27]
                 @ '' was not found.'')
      | Some product \<Rightarrow> Inr product)"

subsection \<open>The list handler\<close>

text \<open>Python's truth value of \<open>args.get(k)\<close>: false for \<open>None\<close> and for the empty string.\<close>

definition truthy :: "string option \<Rightarrow> bool" where
  "truthy v = (v \<noteq> None \<and> v \<noteq> Some [])"

text \<open>
  \<open>list_products\<close>. The parameter \<open>Category\<close> is \<open>getattr(Category, name)\<close> on the enumeration
  of \<open>service.models\<close>: the member of that name, another attribute of the class object, or
  \<open>None\<close> where the lookup raises \<open>AttributeError\<close>. A name is a recognized category when
  the lookup gives a member. \<open>the\<close> is applied only under a guard that excludes \<open>None\<close>.
\<close>

definition recognized :: "(string \<Rightarrow> 'c attr option) \<Rightarrow> string \<Rightarrow> bool" where
  "recognized Category c = (case Category c of Some (Member e) \<Rightarrow> True | _ \<Rightarrow> False)"

definition other_attribute :: "(string \<Rightarrow> 'c attr option) \<Rightarrow> string \<Rightarrow> bool" where
  "other_attribute Category c = (Category c = Some Other)"

definition list_products ::
  "(string \<Rightarrow> 'c attr option) \<Rightarrow> (string \<Rightarrow> string \<Rightarrow> bool) \<Rightarrow> 'j request \<Rightarrow> 'c state
     \<Rightarrow> (http_error + 'c response) \<times> 'c state" where
  "list_products Category name_matches r s0 =
     (let s = logger INFO ''Request to list Products...'' s0;
          name = args r ''name'';
          category = args r ''category'';
          available = args r ''available''
      in if truthy name then
           (Inr (JsonArray (map serialize
                   (Product_find_by_name name_matches (products s) (the name))),
                 HTTP_200_OK), s)
         else if truthy category then
           (case Category (the category) of
              None \<Rightarrow> (Inl (HTTP_400_BAD_REQUEST, ''Invalid category: '' @ the category), s)
            | Some category_enum \<Rightarrow>
                (Inr (JsonArray (map serialize
                        (Product_find_by_category (products s) category_enum)),
                      HTTP_200_OK), s))
         else if available \<noteq> None then
           (case parse_bool_param available of
              None \<Rightarrow>
                (Inl (HTTP_400_BAD_REQUEST, ''Invalid availability: '' @ the available), s)
            | Some bool_value \<Rightarrow>
                (Inr (JsonArray (map serialize
                        (Product_find_by_availability (products s) bool_value)),
                      HTTP_200_OK), s))
         else (Inr (JsonArray (map serialize (Product_all (products s))), HTTP_200_OK), s))"

subsection \<open>The update handler\<close>

text \<open>
  \<open>update_products\<close>. The parameter \<open>deserialize\<close> is \<open>Product.deserialize\<close> of
  \<open>service.models\<close>: given the resolved product and the body, the product with the body's
  values, or the message of the \<open>DataValidationError\<close> it raises.
\<close>

definition update_products ::
  "('c product \<Rightarrow> 'j \<Rightarrow> string + 'c product) \<Rightarrow> int \<Rightarrow> 'j request \<Rightarrow> 'c state
     \<Rightarrow> (http_error + 'c response) \<times> 'c state" where
  "update_products deserialize product_id r s0 =
     (let s = logger INFO (''Request to Update Product with id ['' @ str_int product_id @ '']'') s0
      in case check_content_type ''application/json'' r s of
           (Inl e, s') \<Rightarrow> (Inl e, s')
         | (Inr _, s') \<Rightarrow>
             (case get_product_or_404 product_id s' of
                Inl e \<Rightarrow> (Inl e, s')
              | Inr product \<Rightarrow>
                  (let data = json r
                   in case deserialize product data of
                        Inl error \<Rightarrow> (Inl (HTTP_400_BAD_REQUEST, error), s')
                      | Inr product' \<Rightarrow>
                          (let product'' = product'\<lparr>p_id := product_id\<rparr>;
                               s'' = Product_update product'' s'
                           in (Inr (JsonObject (serialize product''), HTTP_200_OK), s'')))))"

subsection \<open>Sample data\<close>

text \<open>
  A category lookup with two members and two of the other attributes of the class object,
  a store of two products, and requests built from
  their query parameters or from a content type and a body. The sample body is a product
  record, id included, and \<open>copy_all\<close> is a deserializer that takes every attribute of
  the body, the id too, and rejects a body with an empty name.
\<close>

definition sample_Category :: "string \<Rightarrow> nat attr option" where
  "sample_Category =
     [''CLOTHS'' \<mapsto> Member 1, ''FOOD'' \<mapsto> Member 2, ''__class__'' \<mapsto> Other,
      ''__members__'' \<mapsto> Other]"

definition hat :: "nat product" where
  "hat = \<lparr>p_id = 5, p_name = ''Hat'', p_description = ''warm'', p_price = Decimal 1999 (- 2),
           p_available = True, p_category = 1\<rparr>"

definition apple :: "nat product" where
  "apple = \<lparr>p_id = 7, p_name = ''Apple'', p_description = ''red'', p_price = Decimal 50 (- 2),
             p_available = False, p_category = 2\<rparr>"

definition sample_state :: "nat state" where
  "sample_state = \<lparr>products = [hat, apple], logged = []\<rparr>"

definition get_request :: "(string \<rightharpoonup> string) \<Rightarrow> unit request" where
  "get_request a = \<lparr>headers = Map.empty, args = a, json = ()\<rparr>"

definition put_request :: "string option \<Rightarrow> nat product \<Rightarrow> nat product request" where
  "put_request ct data = \<lparr>headers = (\<lambda>k. if k = ''Content-Type'' then ct else None),
                            args = Map.empty, json = data\<rparr>"

definition copy_all :: "nat product \<Rightarrow> nat product \<Rightarrow> string + nat product" where
  "copy_all product data =
     (if p_name data = [] then Inl ''Invalid product: missing name'' else Inr data)"

section \<open>Properties\<close>

subsection \<open>Auxiliary facts\<close>

lemma py_isspace_lower_char: "py_isspace (py_lower_char c) = py_isspace c"
  unfolding py_isspace_def py_lower_char_def Let_def
  by auto

lemma py_lower_char_idem: "py_lower_char (py_lower_char c) = py_lower_char c"
  unfolding py_lower_char_def Let_def
  by auto

lemma py_lower_idem: "py_lower (py_lower s) = py_lower s"
  by (simp add: py_lower_def py_lower_char_idem)

lemma py_strip_lower: "py_strip (py_lower s) = py_lower (py_strip s)"
  by (simp add: py_strip_def py_lower_def dropWhile_map rev_map comp_def py_isspace_lower_char)

lemma dropWhile_all_append: "list_all P a \<Longrightarrow> dropWhile P (a @ v) = dropWhile P v"
  by (induction a) auto

text \<open>Whitespace around a string does not change what \<open>strip\<close> returns.\<close>

lemma py_strip_pad:
  assumes a: "list_all py_isspace a" and b: "list_all py_isspace b"
  shows "py_strip (a @ v @ b) = py_strip v"
proof (cases "list_all py_isspace v")
  case True
  then have "list_all py_isspace (a @ v @ b)"
    using a b by simp
  then have "dropWhile py_isspace (a @ v @ b) = []"
    by (simp add: list_all_iff)
  moreover have "dropWhile py_isspace v = []"
    using True by (simp add: list_all_iff)
  ultimately show ?thesis
    by (simp only: py_strip_def)
next
  case False
  then obtain x where x: "x \<in> set v" "\<not> py_isspace x"
    by (auto simp: list_all_iff)
  have "dropWhile py_isspace (a @ v @ b) = dropWhile py_isspace v @ b"
    using a x by (simp add: dropWhile_all_append)
  moreover have "list_all py_isspace (rev b)"
    using b by (simp add: list_all_iff)
  ultimately show ?thesis
    by (simp add: py_strip_def dropWhile_all_append)
qed

lemma parse_lower: "parse_bool_param (Some (py_lower v)) = parse_bool_param (Some v)"
  by (simp only: parse_bool_param_def option.case py_strip_lower py_lower_idem)

lemma parse_unrecognized:
  "py_lower (py_strip v)
     \<notin> {''true'', ''1'', ''yes'', ''y'', ''t'', ''false'', ''0'', ''no'', ''n'', ''f''}
   \<Longrightarrow> parse_bool_param (Some v) = None"
  by (simp add: parse_bool_param_def Let_def)

lemma map_serialize: "map serialize xs = xs"
  by (induction xs) (simp_all add: serialize_def)

lemma products_logger: "products (logger lv msg s) = products s"
  by (simp add: logger_def)

lemma get_request_args: "args (get_request a) = a"
  by (simp add: get_request_def)

lemma put_request_headers: "headers (put_request ct data) ''Content-Type'' = ct"
  by (simp add: put_request_def)

lemma sample_products: "products sample_state = [hat, apple]"
  by (simp add: sample_state_def)

lemma str_nat_numeral:
  "str_nat (numeral k) =
     (if (numeral k :: nat) < 10 then [digit_char (numeral k)]
      else str_nat (numeral k div 10) @ [digit_char (numeral k mod 10)])"
  by (rule str_nat.simps)

lemma str_nat_digit: "n < 10 \<Longrightarrow> str_nat n = [digit_char n]"
  by (simp add: str_nat.simps [of n])

lemma find_after_update:
  "find (\<lambda>p. p_id p = i) db = Some old \<Longrightarrow> p_id x = i \<Longrightarrow>
   find (\<lambda>p. p_id p = i) (map (\<lambda>q. if p_id q = i then x else q) db) = Some x"
  by (induction db) (auto split: if_splits)

lemma ids_after_update:
  "map p_id (map (\<lambda>q. if p_id q = p_id x then x else q) db) = map p_id db"
  by (induction db) auto

text \<open>The outcomes of the update handler, each under the guards that lead to it.\<close>

lemma update_not_found:
  "headers r ''Content-Type'' = Some ''application/json'' \<Longrightarrow>
   Product_find (products s) i = None \<Longrightarrow>
   update_products d i r s =
     (Inl (HTTP_404_NOT_FOUND,
           ''Product with id '' @ [CHR 0x27] @ str_int i @ [CHR 0x27] @ '' was not found.''),
      logger INFO (''Request to Update Product with id ['' @ str_int i @ '']'') s)"
  by (simp add: update_products_def check_content_type_def get_product_or_404_def
      products_logger Let_def)

lemma update_invalid:
  "headers r ''Content-Type'' = Some ''application/json'' \<Longrightarrow>
   Product_find (products s) i = Some old \<Longrightarrow> d old (json r) = Inl msg \<Longrightarrow>
   update_products d i r s =
     (Inl (HTTP_400_BAD_REQUEST, msg),
      logger INFO (''Request to Update Product with id ['' @ str_int i @ '']'') s)"
  by (simp add: update_products_def check_content_type_def get_product_or_404_def
      products_logger Let_def)

lemma update_valid:
  "headers r ''Content-Type'' = Some ''application/json'' \<Longrightarrow>
   Product_find (products s) i = Some old \<Longrightarrow> d old (json r) = Inr new \<Longrightarrow>
   update_products d i r s =
     (Inr (JsonObject (new\<lparr>p_id := i\<rparr>), HTTP_200_OK),
      Product_update (new\<lparr>p_id := i\<rparr>)
        (logger INFO (''Request to Update Product with id ['' @ str_int i @ '']'') s))"
  by (simp add: update_products_def check_content_type_def get_product_or_404_def
      products_logger Let_def serialize_def)

lemma update_abort_keeps_store:
  "fst (update_products d i r s) = Inl e \<Longrightarrow>
   products (snd (update_products d i r s)) = products s"
  by (auto simp: update_products_def check_content_type_def get_product_or_404_def
      products_logger Let_def split: option.splits sum.splits if_splits)

lemma get_request_update: "(get_request a)\<lparr>args := b\<rparr> = get_request b"
  by (simp add: get_request_def)

lemma parse_empty: "parse_bool_param (Some []) = None"
  by (simp add: parse_bool_param_def py_strip_def py_lower_def)

lemma sample_by_category: "Product_find_by_category [hat, apple] (Member 1) = [hat]"
  "Product_find_by_category [hat, apple] (Member 2) = [apple]"
  by (simp_all add: Product_find_by_category_def hat_def apple_def)

lemma sample_by_availability: "Product_find_by_availability [hat, apple] b = (if b then [hat] else [apple])"
  by (simp add: Product_find_by_availability_def hat_def apple_def)

lemma sample_by_name: "Product_find_by_name (=) [hat, apple] ''Hat'' = [hat]"
  by (simp add: Product_find_by_name_def hat_def apple_def)

text \<open>The four tiers of the list handler, each under the guards that lead to it.\<close>

lemma list_by_name:
  "args r ''name'' = Some n \<Longrightarrow> n \<noteq> [] \<Longrightarrow>
   list_products C nm r s =
     (Inr (JsonArray (Product_find_by_name nm (products s) n), HTTP_200_OK),
      logger INFO ''Request to list Products...'' s)"
  by (simp add: list_products_def Let_def truthy_def map_serialize products_logger)

lemma list_by_category:
  "\<not> truthy (args r ''name'') \<Longrightarrow> args r ''category'' = Some c \<Longrightarrow> c \<noteq> [] \<Longrightarrow>
   list_products C nm r s =
     (case C c of
        None \<Rightarrow> Inl (HTTP_400_BAD_REQUEST, ''Invalid category: '' @ c)
      | Some e \<Rightarrow> Inr (JsonArray (Product_find_by_category (products s) e), HTTP_200_OK),
      logger INFO ''Request to list Products...'' s)"
  by (auto simp: list_products_def Let_def truthy_def map_serialize products_logger
      split: option.splits)

lemma list_by_availability:
  "\<not> truthy (args r ''name'') \<Longrightarrow> \<not> truthy (args r ''category'') \<Longrightarrow>
   args r ''available'' = Some a \<Longrightarrow>
   list_products C nm r s =
     (case parse_bool_param (Some a) of
        None \<Rightarrow> Inl (HTTP_400_BAD_REQUEST, ''Invalid availability: '' @ a)
      | Some b \<Rightarrow> Inr (JsonArray (Product_find_by_availability (products s) b), HTTP_200_OK),
      logger INFO ''Request to list Products...'' s)"
  by (simp add: list_products_def Let_def map_serialize products_logger split: option.splits)

lemma list_unfiltered:
  "\<not> truthy (args r ''name'') \<Longrightarrow> \<not> truthy (args r ''category'') \<Longrightarrow>
   args r ''available'' = None \<Longrightarrow>
   list_products C nm r s =
     (Inr (JsonArray (products s), HTTP_200_OK), logger INFO ''Request to list Products...'' s)"
  by (simp add: list_products_def Let_def map_serialize products_logger Product_all_def)

subsection \<open>The boolean query-parameter parser\<close>

text \<open>
  Claim C7. For every input string, the parser returns true exactly when the string,
  stripped of surrounding whitespace and lowercased, is one of true, 1, yes, y, t; it
  returns false exactly when that is one of false, 0, no, n, f; and every other string
  gives the invalid result \<open>None\<close>. Two strings that differ only in letter case, or only
  in surrounding whitespace, parse alike.
\<close>

theorem parse_bool_param_tokens:
  "(parse_bool_param (Some v) = Some True
      \<longleftrightarrow> py_lower (py_strip v) \<in> {''true'', ''1'', ''yes'', ''y'', ''t''})
   \<and> (parse_bool_param (Some v) = Some False
      \<longleftrightarrow> py_lower (py_strip v) \<in> {''false'', ''0'', ''no'', ''n'', ''f''})
   \<and> (parse_bool_param (Some v) = None
      \<longleftrightarrow> py_lower (py_strip v)
            \<notin> {''true'', ''1'', ''yes'', ''y'', ''t'', ''false'', ''0'', ''no'', ''n'', ''f''})
   \<and> (py_lower v = py_lower w \<longrightarrow> parse_bool_param (Some v) = parse_bool_param (Some w))
   \<and> (list_all py_isspace a \<and> list_all py_isspace b
      \<longrightarrow> parse_bool_param (Some (a @ v @ b)) = parse_bool_param (Some v))"
proof -
  have tokens:
    "(parse_bool_param (Some v) = Some True
        \<longleftrightarrow> py_lower (py_strip v) \<in> {''true'', ''1'', ''yes'', ''y'', ''t''})
     \<and> (parse_bool_param (Some v) = Some False
        \<longleftrightarrow> py_lower (py_strip v) \<in> {''false'', ''0'', ''no'', ''n'', ''f''})
     \<and> (parse_bool_param (Some v) = None
        \<longleftrightarrow> py_lower (py_strip v)
              \<notin> {''true'', ''1'', ''yes'', ''y'', ''t'', ''false'', ''0'', ''no'', ''n'', ''f''})"
    by (simp add: parse_bool_param_def Let_def)
  have "case": "parse_bool_param (Some v) = parse_bool_param (Some w)"
    if "py_lower v = py_lower w"
    using that parse_lower [of v] parse_lower [of w] by simp
  have trim: "parse_bool_param (Some (a @ v @ b)) = parse_bool_param (Some v)"
    if "list_all py_isspace a" "list_all py_isspace b"
    using that by (simp only: parse_bool_param_def option.case py_strip_pad)
  from tokens "case" trim show ?thesis
    by blast
qed

theorem parse_bool_param_tokens_witness:
  "py_lower (py_strip '' Yes '') \<in> {''true'', ''1'', ''yes'', ''y'', ''t''}
   \<and> parse_bool_param (Some '' Yes '') = Some True
   \<and> py_lower '' Yes '' = py_lower '' yES ''
   \<and> parse_bool_param (Some '' Yes '') = parse_bool_param (Some '' yES '')
   \<and> list_all py_isspace '' '' \<and> list_all py_isspace ''  ''
   \<and> parse_bool_param (Some ('' '' @ '' Yes '' @ ''  '')) = parse_bool_param (Some '' Yes '')"
proof -
  have tok: "py_lower (py_strip '' Yes '') \<in> {''true'', ''1'', ''yes'', ''y'', ''t''}"
    by code_simp
  have low: "py_lower '' Yes '' = py_lower '' yES ''"
    by code_simp
  have sp: "list_all py_isspace '' ''" "list_all py_isspace ''  ''"
    by code_simp+
  show ?thesis
    using parse_bool_param_tokens [of "'' Yes ''" "'' yES ''" "'' ''" "''  ''"] tok low sp
    by blast
qed

text \<open>
  Claim C3, as amended. The parser gives absent input and every unrecognized string the
  same result, \<open>None\<close>; it has no separate signal for absence. The list handler tells
  the two apart itself, before it calls the parser: with no name or category filter
  selected, an absent \<open>available\<close> parameter lists every stored product, and a present one
  that does not parse is rejected with status 400.
\<close>

theorem parse_bool_param_absent_same_as_invalid:
  "parse_bool_param None = None
   \<and> (py_lower (py_strip v)
         \<notin> {''true'', ''1'', ''yes'', ''y'', ''t'', ''false'', ''0'', ''no'', ''n'', ''f''}
      \<longrightarrow> parse_bool_param (Some v) = parse_bool_param None)
   \<and> (\<not> truthy (args r ''name'') \<and> \<not> truthy (args r ''category'')
      \<longrightarrow> (args r ''available'' = None
            \<longrightarrow> fst (list_products C nm r s) = Inr (JsonArray (products s), HTTP_200_OK))
        \<and> (args r ''available'' = Some v \<and> parse_bool_param (Some v) = None
            \<longrightarrow> fst (list_products C nm r s)
                  = Inl (HTTP_400_BAD_REQUEST, ''Invalid availability: '' @ v)))"
proof -
  have absent: "parse_bool_param None = None"
    by (simp add: parse_bool_param_def)
  show ?thesis
    using absent parse_unrecognized [of v]
    by (simp add: list_unfiltered list_by_availability)
qed

theorem parse_bool_param_absent_same_as_invalid_witness:
  "py_lower (py_strip ''maybe'')
     \<notin> {''true'', ''1'', ''yes'', ''y'', ''t'', ''false'', ''0'', ''no'', ''n'', ''f''}
   \<and> parse_bool_param (Some ''maybe'') = parse_bool_param None
   \<and> fst (list_products sample_Category (=) (get_request Map.empty) sample_state)
       = Inr (JsonArray [hat, apple], 200)
   \<and> fst (list_products sample_Category (=) (get_request [''available'' \<mapsto> ''maybe''])
            sample_state)
       = Inl (400, ''Invalid availability: maybe'')"
proof -
  have tok: "py_lower (py_strip ''maybe'')
     \<notin> {''true'', ''1'', ''yes'', ''y'', ''t'', ''false'', ''0'', ''no'', ''n'', ''f''}"
    by code_simp
  have inv: "parse_bool_param (Some ''maybe'') = None"
    by code_simp
  show ?thesis
    using tok inv
      parse_bool_param_absent_same_as_invalid
        [of "''maybe''" "get_request Map.empty" sample_Category "(=)" sample_state]
      parse_bool_param_absent_same_as_invalid
        [of "''maybe''" "get_request [''available'' \<mapsto> ''maybe'']" sample_Category "(=)"
          sample_state]
    by (simp add: get_request_args truthy_def sample_products HTTP_200_OK_def
        HTTP_400_BAD_REQUEST_def)
qed

text \<open>
  The claim as written fails: the parser's result for absent input is its result for the
  unrecognized string \<open>maybe\<close>.
\<close>

theorem parse_bool_param_absent_counterexample:
  "''maybe'' \<noteq> []
   \<and> py_lower (py_strip ''maybe'')
       \<notin> {''true'', ''1'', ''yes'', ''y'', ''t'', ''false'', ''0'', ''no'', ''n'', ''f''}
   \<and> parse_bool_param None = parse_bool_param (Some ''maybe'')"
  by code_simp

subsection \<open>The content-type guard\<close>

text \<open>
  Claim C2, as amended. For every required media type \<open>t\<close> and every request: with no
  Content-Type header the guard aborts with status 415 and the message
  \<open>Content-Type must be t\<close>; with a header that differs from \<open>t\<close> it aborts with status
  415 and the same message, which names the required type, while the received type goes to
  the error log only; with a header equal to \<open>t\<close> it returns, and the state is unchanged.
\<close>

theorem check_content_type_message:
  "(headers r ''Content-Type'' = None
      \<longrightarrow> check_content_type t r s
          = (Inl (HTTP_415_UNSUPPORTED_MEDIA_TYPE, ''Content-Type must be '' @ t),
             logger ERROR ''No Content-Type specified.'' s))
   \<and> (headers r ''Content-Type'' = Some received \<and> received \<noteq> t
      \<longrightarrow> check_content_type t r s
          = (Inl (HTTP_415_UNSUPPORTED_MEDIA_TYPE, ''Content-Type must be '' @ t),
             logger ERROR (''Invalid Content-Type: '' @ received) s))
   \<and> (headers r ''Content-Type'' = Some t \<longrightarrow> check_content_type t r s = (Inr (), s))"
  by (simp add: check_content_type_def)

theorem check_content_type_message_witness:
  "headers (put_request None hat) ''Content-Type'' = None
   \<and> check_content_type ''application/json'' (put_request None hat) sample_state
       = (Inl (415, ''Content-Type must be application/json''),
          logger ERROR ''No Content-Type specified.'' sample_state)
   \<and> headers (put_request (Some ''text/plain'') hat) ''Content-Type'' = Some ''text/plain''
   \<and> ''text/plain'' \<noteq> ''application/json''
   \<and> check_content_type ''application/json'' (put_request (Some ''text/plain'') hat) sample_state
       = (Inl (415, ''Content-Type must be application/json''),
          logger ERROR ''Invalid Content-Type: text/plain'' sample_state)
   \<and> headers (put_request (Some ''application/json'') hat) ''Content-Type''
       = Some ''application/json''
   \<and> check_content_type ''application/json'' (put_request (Some ''application/json'') hat)
        sample_state
       = (Inr (), sample_state)"
  using check_content_type_message
      [of "put_request None hat" "''application/json''" sample_state "''text/plain''"]
    check_content_type_message
      [of "put_request (Some ''text/plain'') hat" "''application/json''" sample_state
        "''text/plain''"]
    check_content_type_message
      [of "put_request (Some ''application/json'') hat" "''application/json''" sample_state
        "''text/plain''"]
  by (simp add: put_request_headers HTTP_415_UNSUPPORTED_MEDIA_TYPE_def)

text \<open>
  The claim as written fails: for the required type \<open>application/json\<close> and a request
  declaring \<open>text/plain\<close>, the message of the abort does not contain the received type.
\<close>

theorem check_content_type_received_counterexample:
  "headers (put_request (Some ''text/plain'') hat) ''Content-Type'' = Some ''text/plain''
   \<and> ''text/plain'' \<noteq> ''application/json''
   \<and> fst (check_content_type ''application/json'' (put_request (Some ''text/plain'') hat)
            sample_state)
       = Inl (415, ''Content-Type must be application/json'')
   \<and> \<not> sublist ''text/plain'' ''Content-Type must be application/json''"
proof -
  have "\<not> sublist ''text/plain'' ''Content-Type must be application/json''"
    by code_simp
  then show ?thesis
    by (simp add: check_content_type_def put_request_headers HTTP_415_UNSUPPORTED_MEDIA_TYPE_def)
qed

subsection \<open>The list handler\<close>

text \<open>
  Claim C1, as amended. With no name filter selected (the \<open>name\<close> parameter absent or
  empty), for every non-empty string \<open>c\<close> supplied as the \<open>category\<close> parameter: if \<open>c\<close>
  is not the name of a recognized category and not the name of another attribute of the
  Category class object, the handler responds with status 400 and the message
  \<open>Invalid category: c\<close>; if \<open>c\<close> is the name of a recognized category, it responds with
  status 200 and exactly the stored products of that category. An empty \<open>category\<close>
  parameter is treated as absent: the response is that of the request without it. The
  statement leaves open what the handler does for the name of another attribute of the
  class object.
\<close>

theorem list_products_category:
  "\<not> truthy (args r ''name'')
   \<longrightarrow> (args r ''category'' = Some c \<and> c \<noteq> [] \<and> \<not> recognized Category c
          \<and> \<not> other_attribute Category c
        \<longrightarrow> fst (list_products Category nm r s)
              = Inl (HTTP_400_BAD_REQUEST, ''Invalid category: '' @ c))
     \<and> (args r ''category'' = Some c \<and> c \<noteq> [] \<and> Category c = Some (Member e)
        \<longrightarrow> recognized Category c
          \<and> fst (list_products Category nm r s)
              = Inr (JsonArray (filter (\<lambda>p. p_category p = e) (products s)), HTTP_200_OK))
     \<and> (args r ''category'' = Some []
        \<longrightarrow> list_products Category nm r s
              = list_products Category nm (r\<lparr>args := (args r)(''category'' := None)\<rparr>) s)"
proof (intro impI conjI)
  assume name: "\<not> truthy (args r ''name'')"
  {
    assume h: "args r ''category'' = Some c \<and> c \<noteq> [] \<and> \<not> recognized Category c
        \<and> \<not> other_attribute Category c"
    then have "Category c = None"
      by (simp add: recognized_def other_attribute_def split: option.splits attr.splits)
    with h show "fst (list_products Category nm r s)
        = Inl (HTTP_400_BAD_REQUEST, ''Invalid category: '' @ c)"
      using name by (simp add: list_by_category)
  }
  {
    assume h: "args r ''category'' = Some c \<and> c \<noteq> [] \<and> Category c = Some (Member e)"
    then show "recognized Category c"
      by (simp add: recognized_def)
    from h show "fst (list_products Category nm r s)
        = Inr (JsonArray (filter (\<lambda>p. p_category p = e) (products s)), HTTP_200_OK)"
      using name by (simp add: list_by_category Product_find_by_category_def)
  }
  {
    assume "args r ''category'' = Some []"
    then show "list_products Category nm r s
        = list_products Category nm (r\<lparr>args := (args r)(''category'' := None)\<rparr>) s"
      using name by (auto simp: list_products_def Let_def truthy_def)
  }
qed

theorem list_products_category_witness:
  "\<not> truthy (args (get_request [''category'' \<mapsto> ''UNKNOWN_CATEGORY'']) ''name'')
   \<and> \<not> recognized sample_Category ''UNKNOWN_CATEGORY''
   \<and> \<not> other_attribute sample_Category ''UNKNOWN_CATEGORY''
   \<and> fst (list_products sample_Category (=) (get_request [''category'' \<mapsto> ''UNKNOWN_CATEGORY''])
            sample_state)
       = Inl (400, ''Invalid category: UNKNOWN_CATEGORY'')
   \<and> sample_Category ''CLOTHS'' = Some (Member 1)
   \<and> recognized sample_Category ''CLOTHS''
   \<and> fst (list_products sample_Category (=) (get_request [''category'' \<mapsto> ''CLOTHS''])
            sample_state)
       = Inr (JsonArray [hat], 200)
   \<and> list_products sample_Category (=) (get_request [''category'' \<mapsto> []]) sample_state
       = list_products sample_Category (=) (get_request Map.empty) sample_state"
proof -
  have unknown: "\<not> recognized sample_Category ''UNKNOWN_CATEGORY''"
    "\<not> other_attribute sample_Category ''UNKNOWN_CATEGORY''"
    by (simp_all add: sample_Category_def recognized_def other_attribute_def)
  have cloths: "sample_Category ''CLOTHS'' = Some (Member 1)"
    by (simp add: sample_Category_def)
  have hats: "filter (\<lambda>p. p_category p = 1) [hat, apple] = [hat]"
    by (simp add: hat_def apple_def)
  show ?thesis
    using unknown cloths hats
      list_products_category
        [of "get_request [''category'' \<mapsto> ''UNKNOWN_CATEGORY'']" "''UNKNOWN_CATEGORY''"
          sample_Category "(=)" sample_state 1]
      list_products_category
        [of "get_request [''category'' \<mapsto> ''CLOTHS'']" "''CLOTHS''"
          sample_Category "(=)" sample_state 1]
      list_products_category
        [of "get_request [''category'' \<mapsto> []]" "[]"
          sample_Category "(=)" sample_state 1]
    by (simp add: get_request_args truthy_def sample_products get_request_update HTTP_200_OK_def
        HTTP_400_BAD_REQUEST_def)
qed

text \<open>
  The claim as written fails at two inputs. The empty string is the name of no category,
  and a request whose \<open>category\<close> parameter is the empty string gets status 200 and every
  stored product, not status 400: the guard \<open>elif category:\<close> takes the empty string as
  no filter. The string \<open>__class__\<close> is the name of no category either, but it is an
  attribute of the class object, so \<open>getattr\<close> raises nothing and the handler does not
  abort with status 400: it hands the attribute to the category query. The first is the
  handler's design; the second is a case its \<open>except AttributeError\<close> misses.
\<close>

theorem list_products_category_counterexample:
  "args (get_request [''category'' \<mapsto> []]) ''name'' = None
   \<and> args (get_request [''category'' \<mapsto> []]) ''category'' = Some []
   \<and> \<not> recognized sample_Category []
   \<and> fst (list_products sample_Category (=) (get_request [''category'' \<mapsto> []]) sample_state)
       = Inr (JsonArray [hat, apple], 200)
   \<and> args (get_request [''category'' \<mapsto> ''__class__'']) ''name'' = None
   \<and> args (get_request [''category'' \<mapsto> ''__class__'']) ''category'' = Some ''__class__''
   \<and> \<not> recognized sample_Category ''__class__''
   \<and> fst (list_products sample_Category (=) (get_request [''category'' \<mapsto> ''__class__''])
            sample_state)
       \<noteq> Inl (400, ''Invalid category: __class__'')"
proof -
  have empty: "fst (list_products sample_Category (=) (get_request [''category'' \<mapsto> []])
      sample_state) = Inr (JsonArray [hat, apple], 200)"
    by (simp add: get_request_args list_unfiltered truthy_def sample_products HTTP_200_OK_def)
  have other: "sample_Category ''__class__'' = Some Other"
    by (simp add: sample_Category_def)
  have "fst (list_products sample_Category (=) (get_request [''category'' \<mapsto> ''__class__''])
      sample_state) = Inr (JsonArray (Product_find_by_category [hat, apple] Other), 200)"
    by (simp add: get_request_args list_by_category truthy_def sample_products other
        HTTP_200_OK_def)
  with empty show ?thesis
    by (simp add: get_request_args sample_Category_def recognized_def)
qed

text \<open>
  Claim C4. For every combination of the \<open>name\<close>, \<open>category\<close> and \<open>available\<close> parameters
  at most one filter is applied, in the order name, category, available, none. A non-empty
  name selects the name filter, and any request with the same name gets the same response,
  whatever its other parameters. Otherwise a non-empty category selects the category
  filter, and any request with no name filter and the same category gets the same
  response, whatever its \<open>available\<close> parameter. Otherwise a present \<open>available\<close> selects
  the availability filter. Otherwise every stored product is returned.
\<close>

theorem list_products_precedence:
  "(args r ''name'' = Some n \<and> n \<noteq> []
      \<longrightarrow> fst (list_products Category nm r s)
            = Inr (JsonArray (Product_find_by_name nm (products s) n), HTTP_200_OK)
        \<and> (args r' ''name'' = Some n
            \<longrightarrow> list_products Category nm r' s = list_products Category nm r s))
   \<and> (\<not> truthy (args r ''name'') \<and> args r ''category'' = Some c \<and> c \<noteq> []
      \<longrightarrow> fst (list_products Category nm r s)
            = (case Category c of
                 None \<Rightarrow> Inl (HTTP_400_BAD_REQUEST, ''Invalid category: '' @ c)
               | Some e \<Rightarrow>
                   Inr (JsonArray (Product_find_by_category (products s) e), HTTP_200_OK))
        \<and> (\<not> truthy (args r' ''name'') \<and> args r' ''category'' = Some c
            \<longrightarrow> list_products Category nm r' s = list_products Category nm r s))
   \<and> (\<not> truthy (args r ''name'') \<and> \<not> truthy (args r ''category'')
        \<and> args r ''available'' = Some a
      \<longrightarrow> fst (list_products Category nm r s)
            = (case parse_bool_param (Some a) of
                 None \<Rightarrow> Inl (HTTP_400_BAD_REQUEST, ''Invalid availability: '' @ a)
               | Some b \<Rightarrow>
                   Inr (JsonArray (Product_find_by_availability (products s) b), HTTP_200_OK)))
   \<and> (\<not> truthy (args r ''name'') \<and> \<not> truthy (args r ''category'')
        \<and> args r ''available'' = None
      \<longrightarrow> fst (list_products Category nm r s) = Inr (JsonArray (products s), HTTP_200_OK))"
proof (intro conjI impI)
  assume h: "args r ''name'' = Some n \<and> n \<noteq> []"
  then show "fst (list_products Category nm r s)
      = Inr (JsonArray (Product_find_by_name nm (products s) n), HTTP_200_OK)"
    by (simp add: list_by_name)
  assume "args r' ''name'' = Some n"
  with h show "list_products Category nm r' s = list_products Category nm r s"
    by (simp add: list_by_name)
next
  assume h: "\<not> truthy (args r ''name'') \<and> args r ''category'' = Some c \<and> c \<noteq> []"
  then show "fst (list_products Category nm r s)
      = (case Category c of
           None \<Rightarrow> Inl (HTTP_400_BAD_REQUEST, ''Invalid category: '' @ c)
         | Some e \<Rightarrow> Inr (JsonArray (Product_find_by_category (products s) e), HTTP_200_OK))"
    by (simp add: list_by_category)
  assume "\<not> truthy (args r' ''name'') \<and> args r' ''category'' = Some c"
  with h show "list_products Category nm r' s = list_products Category nm r s"
    by (simp add: list_by_category)
next
  assume "\<not> truthy (args r ''name'') \<and> \<not> truthy (args r ''category'')
      \<and> args r ''available'' = Some a"
  then show "fst (list_products Category nm r s)
      = (case parse_bool_param (Some a) of
           None \<Rightarrow> Inl (HTTP_400_BAD_REQUEST, ''Invalid availability: '' @ a)
         | Some b \<Rightarrow>
             Inr (JsonArray (Product_find_by_availability (products s) b), HTTP_200_OK))"
    by (simp add: list_by_availability)
next
  assume "\<not> truthy (args r ''name'') \<and> \<not> truthy (args r ''category'')
      \<and> args r ''available'' = None"
  then show "fst (list_products Category nm r s) = Inr (JsonArray (products s), HTTP_200_OK)"
    by (simp add: list_unfiltered)
qed

theorem list_products_precedence_witness:
  "args (get_request [''name'' \<mapsto> ''Hat'', ''category'' \<mapsto> ''FOOD'', ''available'' \<mapsto> ''0''])
      ''name'' = Some ''Hat''
   \<and> ''Hat'' \<noteq> []
   \<and> fst (list_products sample_Category (=)
            (get_request [''name'' \<mapsto> ''Hat'', ''category'' \<mapsto> ''FOOD'', ''available'' \<mapsto> ''0''])
            sample_state)
       = Inr (JsonArray [hat], 200)
   \<and> list_products sample_Category (=) (get_request [''name'' \<mapsto> ''Hat'']) sample_state
       = list_products sample_Category (=)
           (get_request [''name'' \<mapsto> ''Hat'', ''category'' \<mapsto> ''FOOD'', ''available'' \<mapsto> ''0''])
           sample_state
   \<and> \<not> truthy (args (get_request [''category'' \<mapsto> ''FOOD'', ''available'' \<mapsto> ''true''])
           ''name'')
   \<and> fst (list_products sample_Category (=)
            (get_request [''category'' \<mapsto> ''FOOD'', ''available'' \<mapsto> ''true'']) sample_state)
       = Inr (JsonArray [apple], 200)
   \<and> list_products sample_Category (=) (get_request [''category'' \<mapsto> ''FOOD'']) sample_state
       = list_products sample_Category (=)
           (get_request [''category'' \<mapsto> ''FOOD'', ''available'' \<mapsto> ''true'']) sample_state
   \<and> fst (list_products sample_Category (=) (get_request [''available'' \<mapsto> ''0''])
            sample_state)
       = Inr (JsonArray [apple], 200)
   \<and> fst (list_products sample_Category (=) (get_request Map.empty) sample_state)
       = Inr (JsonArray [hat, apple], 200)"
proof -
  have food: "sample_Category ''FOOD'' = Some (Member 2)"
    by (simp add: sample_Category_def)
  have zero: "parse_bool_param (Some ''0'') = Some False"
    by code_simp
  show ?thesis
    using food zero
      list_products_precedence
        [of "get_request [''name'' \<mapsto> ''Hat'', ''category'' \<mapsto> ''FOOD'', ''available'' \<mapsto> ''0'']"
          "''Hat''" sample_Category "(=)" sample_state "get_request [''name'' \<mapsto> ''Hat'']"
          "''FOOD''" "''0''"]
      list_products_precedence
        [of "get_request [''category'' \<mapsto> ''FOOD'', ''available'' \<mapsto> ''true'']"
          "''Hat''" sample_Category "(=)" sample_state "get_request [''category'' \<mapsto> ''FOOD'']"
          "''FOOD''" "''true''"]
      list_products_precedence
        [of "get_request [''available'' \<mapsto> ''0'']"
          "''Hat''" sample_Category "(=)" sample_state "get_request Map.empty" "''FOOD''" "''0''"]
      list_products_precedence
        [of "get_request Map.empty"
          "''Hat''" sample_Category "(=)" sample_state "get_request Map.empty" "''FOOD''" "''0''"]
    by (simp add: get_request_args truthy_def sample_products sample_by_name sample_by_category
        sample_by_availability HTTP_200_OK_def)
qed

text \<open>
  Claim C8. For every list request whose \<open>available\<close> parameter is present, the empty
  string included, and with no name or category filter selected: if the value does not
  parse, the handler responds with status 400 and the message \<open>Invalid availability:\<close>
  followed by the value; if it parses to true, the response holds exactly the stored
  products whose \<open>available\<close> field is true.
\<close>

theorem list_products_available:
  "\<not> truthy (args r ''name'') \<and> \<not> truthy (args r ''category'')
     \<and> args r ''available'' = Some a
   \<longrightarrow> (parse_bool_param (Some a) = None
        \<longrightarrow> fst (list_products Category nm r s)
              = Inl (HTTP_400_BAD_REQUEST, ''Invalid availability: '' @ a))
     \<and> (parse_bool_param (Some a) = Some True
        \<longrightarrow> fst (list_products Category nm r s)
              = Inr (JsonArray (filter p_available (products s)), HTTP_200_OK))
     \<and> (a = []
        \<longrightarrow> fst (list_products Category nm r s)
              = Inl (HTTP_400_BAD_REQUEST, ''Invalid availability: ''))"
proof (intro impI)
  assume "\<not> truthy (args r ''name'') \<and> \<not> truthy (args r ''category'')
     \<and> args r ''available'' = Some a"
  then have res: "list_products Category nm r s =
     (case parse_bool_param (Some a) of
        None \<Rightarrow> Inl (HTTP_400_BAD_REQUEST, ''Invalid availability: '' @ a)
      | Some b \<Rightarrow> Inr (JsonArray (Product_find_by_availability (products s) b), HTTP_200_OK),
      logger INFO ''Request to list Products...'' s)"
    by (simp add: list_by_availability)
  show "(parse_bool_param (Some a) = None
        \<longrightarrow> fst (list_products Category nm r s)
              = Inl (HTTP_400_BAD_REQUEST, ''Invalid availability: '' @ a))
     \<and> (parse_bool_param (Some a) = Some True
        \<longrightarrow> fst (list_products Category nm r s)
              = Inr (JsonArray (filter p_available (products s)), HTTP_200_OK))
     \<and> (a = []
        \<longrightarrow> fst (list_products Category nm r s)
              = Inl (HTTP_400_BAD_REQUEST, ''Invalid availability: ''))"
    unfolding res by (simp add: Product_find_by_availability_def parse_empty)
qed

theorem list_products_available_witness:
  "\<not> truthy (args (get_request [''available'' \<mapsto> ''maybe'']) ''name'')
   \<and> \<not> truthy (args (get_request [''available'' \<mapsto> ''maybe'']) ''category'')
   \<and> parse_bool_param (Some ''maybe'') = None
   \<and> fst (list_products sample_Category (=) (get_request [''available'' \<mapsto> ''maybe''])
            sample_state)
       = Inl (400, ''Invalid availability: maybe'')
   \<and> parse_bool_param (Some ''true'') = Some True
   \<and> fst (list_products sample_Category (=) (get_request [''available'' \<mapsto> ''true''])
            sample_state)
       = Inr (JsonArray [hat], 200)
   \<and> fst (list_products sample_Category (=) (get_request [''available'' \<mapsto> []]) sample_state)
       = Inl (400, ''Invalid availability: '')"
proof -
  have maybe: "parse_bool_param (Some ''maybe'') = None"
    and true: "parse_bool_param (Some ''true'') = Some True"
    by code_simp+
  have avail: "filter p_available [hat, apple] = [hat]"
    by (simp add: hat_def apple_def)
  show ?thesis
    using maybe true avail
      list_products_available
        [of "get_request [''available'' \<mapsto> ''maybe'']" "''maybe''" sample_Category "(=)"
          sample_state]
      list_products_available
        [of "get_request [''available'' \<mapsto> ''true'']" "''true''" sample_Category "(=)"
          sample_state]
      list_products_available
        [of "get_request [''available'' \<mapsto> []]" "[]" sample_Category "(=)" sample_state]
    by (simp add: get_request_args truthy_def sample_products HTTP_200_OK_def
        HTTP_400_BAD_REQUEST_def)
qed

text \<open>
  Claim C9. A \<open>name\<close> parameter with the empty string as its value is treated as if no
  name were given: the response is that of the request without the parameter and does not
  depend on the name match, so the name filter is not applied and the handler goes on to
  the category tier. An empty \<open>available\<close> value, by contrast, is parsed and rejected with
  status 400.
\<close>

theorem list_products_empty_name:
  "args r ''name'' = Some []
   \<longrightarrow> list_products Category nm r s
         = list_products Category nm' (r\<lparr>args := (args r)(''name'' := None)\<rparr>) s
     \<and> (args r ''category'' = Some c \<and> c \<noteq> []
        \<longrightarrow> fst (list_products Category nm r s)
              = (case Category c of
                   None \<Rightarrow> Inl (HTTP_400_BAD_REQUEST, ''Invalid category: '' @ c)
                 | Some e \<Rightarrow>
                     Inr (JsonArray (Product_find_by_category (products s) e), HTTP_200_OK)))
     \<and> (\<not> truthy (args r ''category'') \<and> args r ''available'' = Some []
        \<longrightarrow> fst (list_products Category nm r s)
              = Inl (HTTP_400_BAD_REQUEST, ''Invalid availability: ''))"
proof (intro impI conjI)
  assume name: "args r ''name'' = Some []"
  then have falsy: "\<not> truthy (args r ''name'')"
    by (simp add: truthy_def)
  show "list_products Category nm r s
      = list_products Category nm' (r\<lparr>args := (args r)(''name'' := None)\<rparr>) s"
    using name by (simp add: list_products_def Let_def truthy_def)
  {
    assume "args r ''category'' = Some c \<and> c \<noteq> []"
    then show "fst (list_products Category nm r s)
        = (case Category c of
             None \<Rightarrow> Inl (HTTP_400_BAD_REQUEST, ''Invalid category: '' @ c)
           | Some e \<Rightarrow> Inr (JsonArray (Product_find_by_category (products s) e), HTTP_200_OK))"
      using falsy by (simp add: list_by_category)
  }
  {
    assume "\<not> truthy (args r ''category'') \<and> args r ''available'' = Some []"
    then show "fst (list_products Category nm r s)
        = Inl (HTTP_400_BAD_REQUEST, ''Invalid availability: '')"
      using falsy by (simp add: list_by_availability parse_empty)
  }
qed

theorem list_products_empty_name_witness:
  "args (get_request [''name'' \<mapsto> [], ''category'' \<mapsto> ''CLOTHS'']) ''name'' = Some []
   \<and> list_products sample_Category (=) (get_request [''name'' \<mapsto> [], ''category'' \<mapsto> ''CLOTHS''])
        sample_state
       = list_products sample_Category (\<lambda>a b. False) (get_request [''category'' \<mapsto> ''CLOTHS''])
           sample_state
   \<and> fst (list_products sample_Category (=)
            (get_request [''name'' \<mapsto> [], ''category'' \<mapsto> ''CLOTHS'']) sample_state)
       = Inr (JsonArray [hat], 200)
   \<and> fst (list_products sample_Category (=)
            (get_request [''name'' \<mapsto> [], ''available'' \<mapsto> []]) sample_state)
       = Inl (400, ''Invalid availability: '')"
proof -
  have cloths: "sample_Category ''CLOTHS'' = Some (Member 1)"
    by (simp add: sample_Category_def)
  have without: "[''name'' \<mapsto> [], ''category'' \<mapsto> ''CLOTHS''](''name'' := None)
      = [''category'' \<mapsto> ''CLOTHS'']"
    by (rule ext) simp
  show ?thesis
    using cloths sample_by_category
      list_products_empty_name
        [of "get_request [''name'' \<mapsto> [], ''category'' \<mapsto> ''CLOTHS'']" sample_Category "(=)"
          sample_state "\<lambda>a b. False" "''CLOTHS''"]
      list_products_empty_name
        [of "get_request [''name'' \<mapsto> [], ''available'' \<mapsto> []]" sample_Category "(=)"
          sample_state "\<lambda>a b. False" "''CLOTHS''"]
    by (auto simp: get_request_args truthy_def sample_products get_request_update without
        HTTP_200_OK_def HTTP_400_BAD_REQUEST_def)
qed

subsection \<open>The update handler\<close>

text \<open>
  Claim C6. In the update operation the target product is resolved before the payload is
  validated: for every request with the JSON content type addressed to an id with no stored
  record, the handler aborts with status 404 and a message that holds the requested id,
  whatever the body is and whatever the deserializer would do with it; the store is
  unchanged.
\<close>

theorem update_missing_product_404:
  "headers r ''Content-Type'' = Some ''application/json''
     \<and> Product_find (products s) i = None
   \<longrightarrow> fst (update_products d i r s)
         = Inl (HTTP_404_NOT_FOUND,
                ''Product with id '' @ [CHR 0x27] @ str_int i @ [CHR 0x27] @ '' was not found.'')
       \<and> update_products d i r s = update_products d' i (r\<lparr>json := data'\<rparr>) s
       \<and> products (snd (update_products d i r s)) = products s"
proof (intro impI, elim conjE)
  assume ct: "headers r ''Content-Type'' = Some ''application/json''"
    and missing: "Product_find (products s) i = None"
  have ct': "headers (r\<lparr>json := data'\<rparr>) ''Content-Type'' = Some ''application/json''"
    using ct by simp
  show "fst (update_products d i r s)
         = Inl (HTTP_404_NOT_FOUND,
                ''Product with id '' @ [CHR 0x27] @ str_int i @ [CHR 0x27] @ '' was not found.'')
       \<and> update_products d i r s = update_products d' i (r\<lparr>json := data'\<rparr>) s
       \<and> products (snd (update_products d i r s)) = products s"
    by (simp add: update_not_found [OF ct missing] update_not_found [OF ct' missing]
        products_logger)
qed

theorem update_missing_product_404_witness:
  "headers (put_request (Some ''application/json'') hat) ''Content-Type''
     = Some ''application/json''
   \<and> Product_find (products sample_state) 999999 = None
   \<and> fst (update_products copy_all 999999 (put_request (Some ''application/json'') hat)
            sample_state)
       = Inl (404, ''Product with id '' @ [CHR 0x27] @ ''999999'' @ [CHR 0x27] @ '' was not found.'')
   \<and> update_products copy_all 999999 (put_request (Some ''application/json'') hat) sample_state
       = update_products copy_all 999999
           (put_request (Some ''application/json'') (hat\<lparr>p_name := ''''\<rparr>)) sample_state"
proof -
  have str: "str_int 999999 = ''999999''"
    by (simp add: str_int_def str_nat_numeral str_nat_digit digit_char_def)
  have missing: "Product_find (products sample_state) 999999 = None"
    by (simp add: Product_find_def sample_state_def hat_def apple_def)
  have body: "(put_request (Some ''application/json'') hat)\<lparr>json := hat\<lparr>p_name := ''''\<rparr>\<rparr>
      = put_request (Some ''application/json'') (hat\<lparr>p_name := ''''\<rparr>)"
    by (simp add: put_request_def)
  show ?thesis
    using update_missing_product_404
        [of "put_request (Some ''application/json'') hat" sample_state 999999 copy_all copy_all
          "hat\<lparr>p_name := ''''\<rparr>"]
      missing str body
    by (auto simp: put_request_headers HTTP_404_NOT_FOUND_def)
qed

text \<open>
  Claim C10. For every update request whose payload fails deserialization, the handler
  aborts with status 400 and the validation error's message before the persistence update
  is reached, and the stored records are unchanged. More generally, the stored records are
  unchanged whenever the update handler aborts.
\<close>

theorem update_invalid_payload_no_write:
  "(headers r ''Content-Type'' = Some ''application/json''
      \<and> Product_find (products s) i = Some old \<and> d old (json r) = Inl msg
    \<longrightarrow> fst (update_products d i r s) = Inl (HTTP_400_BAD_REQUEST, msg)
        \<and> products (snd (update_products d i r s)) = products s)
   \<and> (fst (update_products d i r s) = Inl e
    \<longrightarrow> products (snd (update_products d i r s)) = products s)"
proof (intro conjI impI)
  assume h: "headers r ''Content-Type'' = Some ''application/json''
      \<and> Product_find (products s) i = Some old \<and> d old (json r) = Inl msg"
  then have ct: "headers r ''Content-Type'' = Some ''application/json''"
    and found: "Product_find (products s) i = Some old"
    and bad: "d old (json r) = Inl msg"
    by simp_all
  from ct found bad have "update_products d i r s =
     (Inl (HTTP_400_BAD_REQUEST, msg),
      logger INFO (''Request to Update Product with id ['' @ str_int i @ '']'') s)"
    by (rule update_invalid)
  then show "fst (update_products d i r s) = Inl (HTTP_400_BAD_REQUEST, msg)"
    and "products (snd (update_products d i r s)) = products s"
    by (simp_all add: products_logger)
next
  assume "fst (update_products d i r s) = Inl e"
  then show "products (snd (update_products d i r s)) = products s"
    by (rule update_abort_keeps_store)
qed

theorem update_invalid_payload_no_write_witness:
  "headers (put_request (Some ''application/json'') (hat\<lparr>p_name := ''''\<rparr>)) ''Content-Type''
     = Some ''application/json''
   \<and> Product_find (products sample_state) 5 = Some hat
   \<and> copy_all hat (json (put_request (Some ''application/json'') (hat\<lparr>p_name := ''''\<rparr>)))
       = Inl ''Invalid product: missing name''
   \<and> fst (update_products copy_all 5
            (put_request (Some ''application/json'') (hat\<lparr>p_name := ''''\<rparr>)) sample_state)
       = Inl (400, ''Invalid product: missing name'')
   \<and> products (snd (update_products copy_all 5
            (put_request (Some ''application/json'') (hat\<lparr>p_name := ''''\<rparr>)) sample_state))
       = [hat, apple]"
proof -
  have found: "Product_find (products sample_state) 5 = Some hat"
    by (simp add: Product_find_def sample_state_def hat_def)
  have bad: "copy_all hat (json (put_request (Some ''application/json'') (hat\<lparr>p_name := ''''\<rparr>)))
       = Inl ''Invalid product: missing name''"
    by (simp add: copy_all_def put_request_def)
  show ?thesis
    using update_invalid_payload_no_write
        [of "put_request (Some ''application/json'') (hat\<lparr>p_name := ''''\<rparr>)" sample_state 5 hat
          copy_all "''Invalid product: missing name''"
          "(400, ''Invalid product: missing name'')"]
      found bad
    by (simp add: put_request_headers HTTP_400_BAD_REQUEST_def sample_products)
qed

text \<open>
  Claim C5. For every existing product id \<open>i\<close> and every payload the deserializer accepts,
  whatever id the deserialized record carries, the update operation returns a record whose
  id is \<open>i\<close> and stores that record under \<open>i\<close>; the ids of the stored records are
  unchanged.
\<close>

theorem update_pins_id:
  "headers r ''Content-Type'' = Some ''application/json''
     \<and> Product_find (products s) i = Some old \<and> d old (json r) = Inr new
   \<longrightarrow> fst (update_products d i r s) = Inr (JsonObject (new\<lparr>p_id := i\<rparr>), HTTP_200_OK)
       \<and> p_id (new\<lparr>p_id := i\<rparr>) = i
       \<and> Product_find (products (snd (update_products d i r s))) i = Some (new\<lparr>p_id := i\<rparr>)
       \<and> map p_id (products (snd (update_products d i r s))) = map p_id (products s)"
proof (intro impI, elim conjE)
  assume ct: "headers r ''Content-Type'' = Some ''application/json''"
    and found: "Product_find (products s) i = Some old"
    and valid: "d old (json r) = Inr new"
  let ?p = "new\<lparr>p_id := i\<rparr>"
  have res: "update_products d i r s =
     (Inr (JsonObject ?p, HTTP_200_OK),
      Product_update ?p
        (logger INFO (''Request to Update Product with id ['' @ str_int i @ '']'') s))"
    using ct found valid by (rule update_valid)
  have stored: "products (snd (update_products d i r s))
      = map (\<lambda>q. if p_id q = i then ?p else q) (products s)"
    by (simp add: res Product_update_def products_logger)
  have "Product_find (products (snd (update_products d i r s))) i = Some ?p"
    using found unfolding stored Product_find_def
    by (intro find_after_update) simp_all
  moreover have "map p_id (products (snd (update_products d i r s))) = map p_id (products s)"
    unfolding stored using ids_after_update [of ?p "products s"] by simp
  ultimately show "fst (update_products d i r s) = Inr (JsonObject ?p, HTTP_200_OK)
       \<and> p_id ?p = i
       \<and> Product_find (products (snd (update_products d i r s))) i = Some ?p
       \<and> map p_id (products (snd (update_products d i r s))) = map p_id (products s)"
    by (simp add: res)
qed

theorem update_pins_id_witness:
  "headers (put_request (Some ''application/json'') (apple\<lparr>p_id := 999\<rparr>)) ''Content-Type''
     = Some ''application/json''
   \<and> Product_find (products sample_state) 5 = Some hat
   \<and> copy_all hat (json (put_request (Some ''application/json'') (apple\<lparr>p_id := 999\<rparr>)))
       = Inr (apple\<lparr>p_id := 999\<rparr>)
   \<and> fst (update_products copy_all 5
            (put_request (Some ''application/json'') (apple\<lparr>p_id := 999\<rparr>)) sample_state)
       = Inr (JsonObject (apple\<lparr>p_id := 5\<rparr>), 200)
   \<and> Product_find (products (snd (update_products copy_all 5
            (put_request (Some ''application/json'') (apple\<lparr>p_id := 999\<rparr>)) sample_state))) 5
       = Some (apple\<lparr>p_id := 5\<rparr>)"
proof -
  have found: "Product_find (products sample_state) 5 = Some hat"
    by (simp add: Product_find_def sample_state_def hat_def)
  have ok: "copy_all hat (json (put_request (Some ''application/json'') (apple\<lparr>p_id := 999\<rparr>)))
       = Inr (apple\<lparr>p_id := 999\<rparr>)"
    by (simp add: copy_all_def put_request_def apple_def)
  show ?thesis
    using update_pins_id
        [of "put_request (Some ''application/json'') (apple\<lparr>p_id := 999\<rparr>)" sample_state 5 hat
          copy_all "apple\<lparr>p_id := 999\<rparr>"]
      found ok
    by (simp add: put_request_headers HTTP_200_OK_def)
qed

end
